theory Spec2Isabelle
  imports Main
begin

section \<open>Subscription billing: the Stripe service and its webhook\<close>

text \<open>
  A shallow embedding of \<^verbatim>\<open>worker/services/stripe/StripeService.ts\<close>, of
  \<^verbatim>\<open>SubscriptionController.getSubscriptionStatus\<close> and of the webhook controller
  \<^verbatim>\<open>handleStripeWebhook\<close>, over the two tables of \<^verbatim>\<open>migrations/0004_safe_gambit.sql\<close>
  that they read and write.

  What the TypeScript does beyond returning a value is made explicit:
  \<^item> the D1 database is a record of tables, each a list of rows in storage order; a write
    returns the new database;
  \<^item> a thrown exception (or a rejected promise) is the \<open>Inl\<close> of a sum; every service
    method performs at most one write, as its last effect, so a throw leaves the database
    as the method found it;
  \<^item> \<^verbatim>\<open>new Date()\<close> reads a clock that is a parameter: \<open>clk n\<close> is what the \<open>n\<close>-th
    evaluation of \<^verbatim>\<open>new Date()\<close> during the call returns;
  \<^item> the Stripe SDK is a parameter too: a record of the two SDK functions the code calls;
  \<^item> log lines are collected in a list.

  Unix seconds are \<open>int\<close> and a JavaScript \<^verbatim>\<open>Date\<close> is its number of milliseconds since
  the epoch; the timestamps are integers far below \<open>2^53\<close>, so the doubles of the source
  compute exactly what the integers do.
\<close>

subsection \<open>Values\<close>

datatype date = Date int

datatype exn =
    Error string
  | TypeError string
  | D1Error string
  | StripeError string

datatype log_level = LOG_INFO | LOG_WARN | LOG_ERROR

type_synonym log_entry = "log_level \<times> string"

type_synonym clock = "nat \<Rightarrow> date"

type_synonym metadata = "(string \<times> string) list"

subsection \<open>Provider objects (the fields of the Stripe types that the code reads)\<close>

record price =
  price_id :: string
  price_product :: string

record subscription_item =
  item_price :: price

record subscription =
  sub_id :: string
  sub_metadata :: metadata
  sub_customer :: string
  sub_items :: "subscription_item list"
  sub_status :: string
  sub_cancel_at_period_end :: bool
  sub_current_period_start :: int
  sub_current_period_end :: int
  sub_trial_start :: "int option"
  sub_trial_end :: "int option"
  sub_canceled_at :: "int option"

record subscription_details =
  sd_metadata :: "metadata option"

record status_transitions =
  paid_at :: "int option"

record invoice =
  inv_id :: string
  inv_metadata :: "metadata option"
  inv_subscription_details :: "subscription_details option"
  inv_payment_intent :: "string option"
  inv_subscription :: "string option"
  inv_customer :: "string option"
  inv_amount_paid :: int
  inv_currency :: string
  inv_description :: "string option"
  inv_hosted_invoice_url :: "string option"
  inv_status_transitions :: status_transitions

text \<open>
  \<^verbatim>\<open>Stripe.Event\<close> is a discriminated union: the event's type fixes the kind of
  \<^verbatim>\<open>event.data.object\<close>, which is what makes the casts of the dispatcher sound. The six
  types the dispatcher names are constructors of their own; every other event is
  \<open>other_event\<close> with its type and the id of its object.
\<close>

datatype event_data =
    customer_subscription_created subscription
  | customer_subscription_updated subscription
  | customer_subscription_deleted subscription
  | invoice_payment_succeeded invoice
  | invoice_payment_failed invoice
  | customer_subscription_trial_will_end subscription
  | other_event string string

record event =
  event_id :: string
  event_data :: event_data

fun event_type :: "event_data \<Rightarrow> string" where
  "event_type (customer_subscription_created _) = ''customer.subscription.created''"
| "event_type (customer_subscription_updated _) = ''customer.subscription.updated''"
| "event_type (customer_subscription_deleted _) = ''customer.subscription.deleted''"
| "event_type (invoice_payment_succeeded _) = ''invoice.payment_succeeded''"
| "event_type (invoice_payment_failed _) = ''invoice.payment_failed''"
| "event_type (customer_subscription_trial_will_end _) = ''customer.subscription.trial_will_end''"
| "event_type (other_event t _) = t"

subsection \<open>The tables of the migration\<close>

text \<open>
  A column declared \<^verbatim>\<open>NOT NULL\<close> has the plain type, a nullable one an option. The
  \<^verbatim>\<open>users\<close> table is outside these sources; only its ids matter here, as the target
  of the foreign keys.
\<close>

record subscription_row =
  s_id :: string
  s_userId :: string
  s_stripeCustomerId :: string
  s_stripePriceId :: string
  s_stripeProductId :: string
  s_status :: string
  s_cancelAtPeriodEnd :: "bool option"
  s_currentPeriodStart :: date
  s_currentPeriodEnd :: date
  s_canceledAt :: "date option"
  s_trialStart :: "date option"
  s_trialEnd :: "date option"
  s_createdAt :: "date option"
  s_updatedAt :: "date option"

record payment_row =
  p_id :: string
  p_userId :: string
  p_subscriptionId :: "string option"
  p_stripeInvoiceId :: "string option"
  p_stripeCustomerId :: string
  p_amount :: int
  p_currency :: string
  p_status :: string
  p_description :: "string option"
  p_receiptUrl :: "string option"
  p_createdAt :: "date option"
  p_paidAt :: "date option"

record database =
  users :: "string list"
  subscriptions :: "subscription_row list"
  payments :: "payment_row list"

text \<open>
  \<^verbatim>\<open>db.insert(subscriptions).values(row)\<close>: a plain \<^verbatim>\<open>INSERT\<close>, with no conflict clause.
  The statement fails on a primary key already in the table and on a user id that is
  not in \<^verbatim>\<open>users\<close> (D1 enforces the declared foreign keys).
\<close>

definition insert_subscription :: "subscription_row \<Rightarrow> database \<Rightarrow> exn + database" where
  "insert_subscription row d =
     (if s_id row \<in> set (map s_id (subscriptions d))
        then Inl (D1Error ''UNIQUE constraint failed: subscriptions.id'')
      else if s_userId row \<notin> set (users d)
        then Inl (D1Error ''FOREIGN KEY constraint failed'')
      else Inr (d\<lparr>subscriptions := subscriptions d @ [row]\<rparr>))"

text \<open>
  \<^verbatim>\<open>db.insert(payments).values(row)\<close>: the same, with the second foreign key, from
  \<^verbatim>\<open>subscription_id\<close> to \<^verbatim>\<open>subscriptions(id)\<close>, which a null satisfies.
\<close>

definition insert_payment :: "payment_row \<Rightarrow> database \<Rightarrow> exn + database" where
  "insert_payment row d =
     (if p_id row \<in> set (map p_id (payments d))
        then Inl (D1Error ''UNIQUE constraint failed: payments.id'')
      else if p_userId row \<notin> set (users d)
        then Inl (D1Error ''FOREIGN KEY constraint failed'')
      else if (case p_subscriptionId row of
                 None \<Rightarrow> False
               | Some sid \<Rightarrow> sid \<notin> set (map s_id (subscriptions d)))
        then Inl (D1Error ''FOREIGN KEY constraint failed'')
      else Inr (d\<lparr>payments := payments d @ [row]\<rparr>))"

text \<open>
  \<^verbatim>\<open>db.update(subscriptions).set(...).where(eq(subscriptions.id, k))\<close>: every row with
  that id gets the assignments \<open>f\<close>; a statement that matches no row changes nothing and
  raises nothing.
\<close>

definition update_subscriptions :: "string \<Rightarrow> (subscription_row \<Rightarrow> subscription_row) \<Rightarrow> database \<Rightarrow> database" where
  "update_subscriptions k f d =
     d\<lparr>subscriptions := map (\<lambda>row. if s_id row = k then f row else row) (subscriptions d)\<rparr>"

subsection \<open>The provider SDK\<close>

text \<open>
  The two SDK calls whose outcome the code depends on:
  \<^verbatim>\<open>stripe.webhooks.constructEvent(payload, signature, secret)\<close>, which returns the event
  or throws, and \<^verbatim>\<open>stripe.subscriptions.update(id, {cancel_at_period_end})\<close>, whose
  result the code drops and whose rejection it lets through.
\<close>

record stripe =
  webhooks_constructEvent :: "string \<Rightarrow> string \<Rightarrow> string \<Rightarrow> exn + event"
  stripe_subscriptions_update :: "string \<Rightarrow> bool \<Rightarrow> exn + unit"

subsection \<open>StripeService\<close>

text \<open>\<^verbatim>\<open>getUserSubscription\<close>: the first row of the user with status \<^verbatim>\<open>'active'\<close>.\<close>

definition getUserSubscription :: "string \<Rightarrow> database \<Rightarrow> subscription_row option" where
  "getUserSubscription userId d =
     find (\<lambda>row. s_userId row = userId \<and> s_status row = ''active'') (subscriptions d)"

definition hasActiveSubscription :: "string \<Rightarrow> database \<Rightarrow> bool" where
  "hasActiveSubscription userId d = (getUserSubscription userId d \<noteq> None)"

definition cancelSubscription :: "stripe \<Rightarrow> clock \<Rightarrow> string \<Rightarrow> database \<Rightarrow> exn + database" where
  "cancelSubscription sdk clk subscriptionId d =
     (case stripe_subscriptions_update sdk subscriptionId True of
        Inl e \<Rightarrow> Inl e
      | Inr _ \<Rightarrow>
          Inr (update_subscriptions subscriptionId
                 (\<lambda>row. row\<lparr>s_cancelAtPeriodEnd := Some True, s_updatedAt := Some (clk 0)\<rparr>) d))"

definition reactivateSubscription :: "stripe \<Rightarrow> clock \<Rightarrow> string \<Rightarrow> database \<Rightarrow> exn + database" where
  "reactivateSubscription sdk clk subscriptionId d =
     (case stripe_subscriptions_update sdk subscriptionId False of
        Inl e \<Rightarrow> Inl e
      | Inr _ \<Rightarrow>
          Inr (update_subscriptions subscriptionId
                 (\<lambda>row. row\<lparr>s_cancelAtPeriodEnd := Some False, s_updatedAt := Some (clk 0)\<rparr>) d))"

text \<open>
  \<^verbatim>\<open>x ? new Date(x * 1000) : null\<close> on a \<^verbatim>\<open>number | null\<close>: the test is JavaScript
  truthiness, so \<open>0\<close> goes the way of \<^verbatim>\<open>null\<close>.
\<close>

definition date_or_null :: "int option \<Rightarrow> date option" where
  "date_or_null x =
     (case x of
        None \<Rightarrow> None
      | Some n \<Rightarrow> if n = 0 then None else Some (Date (n * 1000)))"

text \<open>
  The object literal \<^verbatim>\<open>newSub\<close> of \<^verbatim>\<open>handleSubscriptionCreated\<close>, for the user id
  found in the metadata and the first item of the subscription. \<^verbatim>\<open>canceledAt\<close> is not
  in the literal, so the column gets its null.
\<close>

definition newSub :: "clock \<Rightarrow> subscription \<Rightarrow> string \<Rightarrow> subscription_item \<Rightarrow> subscription_row" where
  "newSub clk subscription userId item =
     \<lparr>s_id = sub_id subscription,
      s_userId = userId,
      s_stripeCustomerId = sub_customer subscription,
      s_stripePriceId = price_id (item_price item),
      s_stripeProductId = price_product (item_price item),
      s_status = sub_status subscription,
      s_cancelAtPeriodEnd = Some (sub_cancel_at_period_end subscription),
      s_currentPeriodStart = Date (sub_current_period_start subscription * 1000),
      s_currentPeriodEnd = Date (sub_current_period_end subscription * 1000),
      s_canceledAt = None,
      s_trialStart = date_or_null (sub_trial_start subscription),
      s_trialEnd = date_or_null (sub_trial_end subscription),
      s_createdAt = Some (clk 0),
      s_updatedAt = Some (clk 1)\<rparr>"

text \<open>
  \<^verbatim>\<open>handleSubscriptionCreated\<close>. \<^verbatim>\<open>!userId\<close> holds for a missing key and for the
  empty string. \<^verbatim>\<open>items.data[0].price\<close> on an empty list of items is a read of a
  property of \<^verbatim>\<open>undefined\<close>, which throws.
\<close>

definition handleSubscriptionCreated :: "clock \<Rightarrow> subscription \<Rightarrow> database \<Rightarrow> exn + database" where
  "handleSubscriptionCreated clk subscription d =
     (case map_of (sub_metadata subscription) ''userId'' of
        None \<Rightarrow> Inl (Error ''No userId in subscription metadata'')
      | Some userId \<Rightarrow>
          if userId = [] then Inl (Error ''No userId in subscription metadata'')
          else
            (case sub_items subscription of
               [] \<Rightarrow> Inl (TypeError ''items.data[0] is undefined'')
             | item # _ \<Rightarrow> insert_subscription (newSub clk subscription userId item) d))"

definition handleSubscriptionUpdated :: "clock \<Rightarrow> subscription \<Rightarrow> database \<Rightarrow> exn + database" where
  "handleSubscriptionUpdated clk subscription d =
     Inr (update_subscriptions (sub_id subscription)
            (\<lambda>row. row\<lparr>s_status := sub_status subscription,
                        s_cancelAtPeriodEnd := Some (sub_cancel_at_period_end subscription),
                        s_currentPeriodStart := Date (sub_current_period_start subscription * 1000),
                        s_currentPeriodEnd := Date (sub_current_period_end subscription * 1000),
                        s_canceledAt := date_or_null (sub_canceled_at subscription),
                        s_updatedAt := Some (clk 0)\<rparr>) d)"

definition handleSubscriptionDeleted :: "clock \<Rightarrow> subscription \<Rightarrow> database \<Rightarrow> exn + database" where
  "handleSubscriptionDeleted clk subscription d =
     Inr (update_subscriptions (sub_id subscription)
            (\<lambda>row. row\<lparr>s_status := ''canceled'',
                        s_canceledAt := Some (clk 0),
                        s_updatedAt := Some (clk 1)\<rparr>) d)"

text \<open>
  \<^verbatim>\<open>a || b\<close> on a string that may be missing: \<open>a\<close> when it is a non-empty string,
  \<open>b\<close> otherwise. \<open>or_else\<close> is the form whose right side may be missing too,
  \<open>or_default\<close> the form whose right side is a string.
\<close>

definition truthy :: "string option \<Rightarrow> bool" where
  "truthy x = (case x of None \<Rightarrow> False | Some s \<Rightarrow> s \<noteq> [])"

definition or_else :: "string option \<Rightarrow> string option \<Rightarrow> string option" where
  "or_else a b = (if truthy a then a else b)"

definition or_default :: "string option \<Rightarrow> string \<Rightarrow> string" where
  "or_default a b = (case a of None \<Rightarrow> b | Some s \<Rightarrow> if s = [] then b else s)"

text \<open>\<^verbatim>\<open>m?.userId\<close> on a metadata object that may be null.\<close>

definition metadata_userId :: "metadata option \<Rightarrow> string option" where
  "metadata_userId m = (case m of None \<Rightarrow> None | Some kv \<Rightarrow> map_of kv ''userId'')"

text \<open>
  \<^verbatim>\<open>invoice.metadata?.userId || invoice.subscription_details?.metadata?.userId\<close>
\<close>

definition invoice_userId :: "invoice \<Rightarrow> string option" where
  "invoice_userId invoice =
     or_else (metadata_userId (inv_metadata invoice))
       (case inv_subscription_details invoice of
          None \<Rightarrow> None
        | Some details \<Rightarrow> metadata_userId (sd_metadata details))"

text \<open>
  The object literal \<^verbatim>\<open>newPayment\<close> of \<^verbatim>\<open>handleInvoicePaymentSucceeded\<close>, for the
  user id and the customer of the invoice. \<^verbatim>\<open>paid_at! * 1000\<close> on a null \<^verbatim>\<open>paid_at\<close>
  is \<open>0\<close>.
\<close>

definition newPayment :: "clock \<Rightarrow> invoice \<Rightarrow> string \<Rightarrow> string \<Rightarrow> payment_row" where
  "newPayment clk invoice userId customer =
     \<lparr>p_id = or_default (inv_payment_intent invoice) (''pi_'' @ inv_id invoice),
      p_userId = userId,
      p_subscriptionId = or_else (inv_subscription invoice) None,
      p_stripeInvoiceId = Some (inv_id invoice),
      p_stripeCustomerId = customer,
      p_amount = inv_amount_paid invoice,
      p_currency = inv_currency invoice,
      p_status = ''succeeded'',
      p_description = Some (or_default (inv_description invoice) ''Subscription payment''),
      p_receiptUrl = inv_hosted_invoice_url invoice,
      p_createdAt = Some (clk 0),
      p_paidAt =
        Some (Date ((case paid_at (inv_status_transitions invoice) of
                       None \<Rightarrow> 0
                     | Some t \<Rightarrow> t) * 1000))\<rparr>"

text \<open>
  \<^verbatim>\<open>handleInvoicePaymentSucceeded\<close> returns the database and what it wrote to the
  console. A null \<^verbatim>\<open>invoice.customer\<close> passes the cast and reaches a \<^verbatim>\<open>NOT NULL\<close>
  column, where the insert fails.
\<close>

definition handleInvoicePaymentSucceeded :: "clock \<Rightarrow> invoice \<Rightarrow> database \<Rightarrow> exn + database \<times> log_entry list" where
  "handleInvoicePaymentSucceeded clk invoice d =
     (case invoice_userId invoice of
        None \<Rightarrow> Inr (d, [(LOG_WARN, ''No userId in invoice metadata'')])
      | Some userId \<Rightarrow>
          if userId = [] then Inr (d, [(LOG_WARN, ''No userId in invoice metadata'')])
          else
            (case inv_customer invoice of
               None \<Rightarrow> Inl (D1Error ''NOT NULL constraint failed: payments.stripe_customer_id'')
             | Some customer \<Rightarrow>
                 (case insert_payment (newPayment clk invoice userId customer) d of
                    Inl e \<Rightarrow> Inl e
                  | Inr d' \<Rightarrow> Inr (d', []))))"

text \<open>\<^verbatim>\<open>verifyWebhookSignature\<close>\<close>

definition verifyWebhookSignature :: "stripe \<Rightarrow> string \<Rightarrow> string \<Rightarrow> string \<Rightarrow> exn + event" where
  "verifyWebhookSignature sdk payload signature webhookSecret =
     webhooks_constructEvent sdk payload signature webhookSecret"

subsection \<open>SubscriptionController.getSubscriptionStatus\<close>

record user =
  user_id :: string
  user_email :: string

record subscription_summary =
  sum_id :: string
  sum_status :: string
  sum_currentPeriodEnd :: date
  sum_cancelAtPeriodEnd :: "bool option"

record status_data =
  res_hasActiveSubscription :: bool
  res_subscription :: "subscription_summary option"

text \<open>
  Modelled from the spec: \<^verbatim>\<open>BaseController\<close> (\<^verbatim>\<open>../baseController\<close>) is not among the
  source files. Its two response builders are kept as the constructors of the
  controller's responses: \<open>createErrorResponse message statusCode\<close> is the error response
  with that HTTP status, \<open>createSuccessResponse data\<close> the response that carries the data.
\<close>

datatype api_response =
    createErrorResponse string nat
  | createSuccessResponse status_data

text \<open>
  The \<^verbatim>\<open>catch\<close> of the method is for a failing database read, which the tables of
  this model do not have.
\<close>

definition getSubscriptionStatus :: "user option \<Rightarrow> database \<Rightarrow> api_response" where
  "getSubscriptionStatus routeContext_user d =
     (case routeContext_user of
        None \<Rightarrow> createErrorResponse ''Unauthorized'' 401
      | Some u \<Rightarrow>
          (let subscription = getUserSubscription (user_id u) d
           in createSuccessResponse
                \<lparr>res_hasActiveSubscription = (subscription \<noteq> None),
                 res_subscription =
                   (case subscription of
                      None \<Rightarrow> None
                    | Some row \<Rightarrow>
                        Some \<lparr>sum_id = s_id row,
                              sum_status = s_status row,
                              sum_currentPeriodEnd = s_currentPeriodEnd row,
                              sum_cancelAtPeriodEnd = s_cancelAtPeriodEnd row\<rparr>)\<rparr>))"

subsection \<open>The webhook controller\<close>

record request =
  req_text :: string
  req_stripe_signature :: "string option"

record env =
  STRIPE_SECRET_KEY :: string
  STRIPE_WEBHOOK_SECRET :: string

datatype json = JBool bool | JString string | JObject "(string \<times> json) list"

datatype body = Text string | JSON_stringify json

record response =
  status :: nat
  body :: body
  headers :: "(string \<times> string) list"

text \<open>What a request works on: the database and the log.\<close>

record world =
  db :: database
  logs :: "log_entry list"

definition logger :: "log_level \<Rightarrow> string \<Rightarrow> world \<Rightarrow> world" where
  "logger level message w = w\<lparr>logs := logs w @ [(level, message)]\<rparr>"

text \<open>
  The \<^verbatim>\<open>switch\<close> inside the inner \<^verbatim>\<open>try\<close>. A handler that throws leaves the
  switch before the log line that follows it.
\<close>

definition dispatch :: "clock \<Rightarrow> event \<Rightarrow> world \<Rightarrow> exn + world" where
  "dispatch clk event w =
     (case event_data event of
        customer_subscription_created subscription \<Rightarrow>
          (case handleSubscriptionCreated clk subscription (db w) of
             Inl e \<Rightarrow> Inl e
           | Inr d \<Rightarrow> Inr (logger LOG_INFO ''Subscription created'' (w\<lparr>db := d\<rparr>)))
      | customer_subscription_updated subscription \<Rightarrow>
          (case handleSubscriptionUpdated clk subscription (db w) of
             Inl e \<Rightarrow> Inl e
           | Inr d \<Rightarrow> Inr (logger LOG_INFO ''Subscription updated'' (w\<lparr>db := d\<rparr>)))
      | customer_subscription_deleted subscription \<Rightarrow>
          (case handleSubscriptionDeleted clk subscription (db w) of
             Inl e \<Rightarrow> Inl e
           | Inr d \<Rightarrow> Inr (logger LOG_INFO ''Subscription deleted'' (w\<lparr>db := d\<rparr>)))
      | invoice_payment_succeeded invoice \<Rightarrow>
          (case handleInvoicePaymentSucceeded clk invoice (db w) of
             Inl e \<Rightarrow> Inl e
           | Inr (d, out) \<Rightarrow>
               Inr (logger LOG_INFO ''Invoice payment succeeded''
                      (w\<lparr>db := d, logs := logs w @ out\<rparr>)))
      | invoice_payment_failed invoice \<Rightarrow>
          Inr (logger LOG_WARN ''Invoice payment failed'' w)
      | customer_subscription_trial_will_end subscription \<Rightarrow>
          Inr (logger LOG_INFO ''Trial will end soon'' w)
      | other_event t object_id \<Rightarrow>
          Inr (logger LOG_INFO ''Unhandled webhook event type'' w))"

definition missing_signature :: response where
  "missing_signature = \<lparr>status = 400, body = Text ''Missing signature'', headers = []\<rparr>"

definition invalid_signature :: response where
  "invalid_signature = \<lparr>status = 400, body = Text ''Invalid signature'', headers = []\<rparr>"

definition received :: response where
  "received =
     \<lparr>status = 200,
      body = JSON_stringify (JObject [(''received'', JBool True)]),
      headers = [(''Content-Type'', ''application/json'')]\<rparr>"

definition processing_failed :: response where
  "processing_failed =
     \<lparr>status = 200,
      body = JSON_stringify
               (JObject [(''received'', JBool True), (''error'', JString ''Processing failed'')]),
      headers = [(''Content-Type'', ''application/json'')]\<rparr>"

text \<open>
  \<^verbatim>\<open>handleStripeWebhook\<close>. \<open>Stripe\<close> is the SDK's constructor, from the secret key to
  the client. \<^verbatim>\<open>!signature\<close> holds for a missing header and for an empty one. The outer
  \<^verbatim>\<open>catch\<close>, which answers 500, is for a body that cannot be read or a client that
  cannot be built; nothing else of the function can reach it.
\<close>

definition handleStripeWebhook :: "(string \<Rightarrow> stripe) \<Rightarrow> clock \<Rightarrow> request \<Rightarrow> env \<Rightarrow> world \<Rightarrow> response \<times> world" where
  "handleStripeWebhook Stripe clk request env w =
     (case req_stripe_signature request of
        None \<Rightarrow> (missing_signature, logger LOG_ERROR ''Missing stripe-signature header'' w)
      | Some signature \<Rightarrow>
          if signature = []
            then (missing_signature, logger LOG_ERROR ''Missing stripe-signature header'' w)
          else
            (case verifyWebhookSignature (Stripe (STRIPE_SECRET_KEY env)) (req_text request)
                    signature (STRIPE_WEBHOOK_SECRET env) of
               Inl err \<Rightarrow>
                 (invalid_signature, logger LOG_ERROR ''Webhook signature verification failed'' w)
             | Inr event \<Rightarrow>
                 (let w1 = logger LOG_INFO ''Processing Stripe webhook event'' w
                  in case dispatch clk event w1 of
                       Inr w2 \<Rightarrow> (received, w2)
                     | Inl error \<Rightarrow>
                         (processing_failed,
                          logger LOG_ERROR ''Error processing webhook event'' w1))))"

subsection \<open>Concrete inputs\<close>

text \<open>
  A user, a subscription of theirs, an invoice for it, two readings of the clock ten
  minutes apart, and two SDK clients: one whose \<open>constructEvent\<close> accepts every request
  as the given event, one that rejects every signature.
\<close>

definition clock0 :: clock where
  "clock0 n = Date (1700000000000 + int n)"

definition clock1 :: clock where
  "clock1 n = Date (1700000600000 + int n)"

definition example_subscription :: subscription where
  "example_subscription =
     \<lparr>sub_id = ''sub_1'',
      sub_metadata = [(''userId'', ''user_1'')],
      sub_customer = ''cus_1'',
      sub_items = [\<lparr>item_price = \<lparr>price_id = ''price_1'', price_product = ''prod_1''\<rparr>\<rparr>],
      sub_status = ''active'',
      sub_cancel_at_period_end = False,
      sub_current_period_start = 1700000000,
      sub_current_period_end = 1702592000,
      sub_trial_start = None,
      sub_trial_end = None,
      sub_canceled_at = None\<rparr>"

definition example_row :: subscription_row where
  "example_row =
     \<lparr>s_id = ''sub_1'',
      s_userId = ''user_1'',
      s_stripeCustomerId = ''cus_1'',
      s_stripePriceId = ''price_1'',
      s_stripeProductId = ''prod_1'',
      s_status = ''active'',
      s_cancelAtPeriodEnd = Some False,
      s_currentPeriodStart = Date 1700000000000,
      s_currentPeriodEnd = Date 1702592000000,
      s_canceledAt = None,
      s_trialStart = None,
      s_trialEnd = None,
      s_createdAt = Some (Date 1700000000000),
      s_updatedAt = Some (Date 1700000000001)\<rparr>"

definition example_invoice :: invoice where
  "example_invoice =
     \<lparr>inv_id = ''in_1'',
      inv_metadata = Some [],
      inv_subscription_details = Some \<lparr>sd_metadata = Some [(''userId'', ''user_1'')]\<rparr>,
      inv_payment_intent = Some ''pi_1'',
      inv_subscription = Some ''sub_1'',
      inv_customer = Some ''cus_1'',
      inv_amount_paid = 4900,
      inv_currency = ''usd'',
      inv_description = None,
      inv_hosted_invoice_url = Some ''https://invoice.stripe.com/i/in_1'',
      inv_status_transitions = \<lparr>paid_at = Some 1700000300\<rparr>\<rparr>"

definition example_payment :: payment_row where
  "example_payment =
     \<lparr>p_id = ''pi_1'',
      p_userId = ''user_1'',
      p_subscriptionId = Some ''sub_1'',
      p_stripeInvoiceId = Some ''in_1'',
      p_stripeCustomerId = ''cus_1'',
      p_amount = 4900,
      p_currency = ''usd'',
      p_status = ''succeeded'',
      p_description = Some ''Subscription payment'',
      p_receiptUrl = Some ''https://invoice.stripe.com/i/in_1'',
      p_createdAt = Some (Date 1700000000000),
      p_paidAt = Some (Date 1700000300000)\<rparr>"

definition new_db :: database where
  "new_db = \<lparr>users = [''user_1''], subscriptions = [], payments = []\<rparr>"

definition subscribed_db :: database where
  "subscribed_db = \<lparr>users = [''user_1''], subscriptions = [example_row], payments = []\<rparr>"

definition accepting :: "event_data \<Rightarrow> string \<Rightarrow> stripe" where
  "accepting e secretKey =
     \<lparr>webhooks_constructEvent = (\<lambda>payload signature secret. Inr \<lparr>event_id = ''evt_1'', event_data = e\<rparr>),
      stripe_subscriptions_update = (\<lambda>subscriptionId flag. Inr ())\<rparr>"

definition rejecting :: "string \<Rightarrow> stripe" where
  "rejecting secretKey =
     \<lparr>webhooks_constructEvent =
        (\<lambda>payload signature secret. Inl (StripeError ''No signatures found matching the expected signature'')),
      stripe_subscriptions_update = (\<lambda>subscriptionId flag. Inl (StripeError ''No such subscription''))\<rparr>"

definition example_request :: request where
  "example_request = \<lparr>req_text = ''{}'', req_stripe_signature = Some ''t=1700000000,v1=5257a8''\<rparr>"

definition example_env :: env where
  "example_env = \<lparr>STRIPE_SECRET_KEY = ''sk_test_1'', STRIPE_WEBHOOK_SECRET = ''whsec_1''\<rparr>"

definition world_of :: "database \<Rightarrow> world" where
  "world_of d = \<lparr>db = d, logs = []\<rparr>"

section \<open>Properties\<close>

subsection \<open>Signature verification\<close>

text \<open>
  C6. Signature verification is delegated whole: on every payload, signature and secret,
  \<open>verifyWebhookSignature\<close> returns what the SDK's \<open>webhooks.constructEvent\<close> returns on
  those three arguments, the event or the exception, with no check or change of its own.
\<close>

theorem verifyWebhookSignature_delegates:
  "verifyWebhookSignature sdk payload signature webhookSecret =
     webhooks_constructEvent sdk payload signature webhookSecret"
  by (simp add: verifyWebhookSignature_def)

text \<open>
  C9. A request without a \<^verbatim>\<open>stripe-signature\<close> header (or with an empty one), and a
  request whose signature the SDK rejects, is answered with status 400; the database is
  as it was, and the only trace is one error line in the log, so no event was
  dispatched.
\<close>

theorem rejected_requests_write_nothing:
  assumes "req_stripe_signature request = None \<or> req_stripe_signature request = Some []
         \<or> (\<exists>signature e. req_stripe_signature request = Some signature
               \<and> webhooks_constructEvent (Stripe (STRIPE_SECRET_KEY env)) (req_text request)
                    signature (STRIPE_WEBHOOK_SECRET env) = Inl e)"
  shows "status (fst (handleStripeWebhook Stripe clk request env w)) = 400
       \<and> db (snd (handleStripeWebhook Stripe clk request env w)) = db w
       \<and> (\<exists>message. logs (snd (handleStripeWebhook Stripe clk request env w)) =
             logs w @ [(LOG_ERROR, message)])"
  using assms
  by (auto simp: handleStripeWebhook_def verifyWebhookSignature_def logger_def
        missing_signature_def invalid_signature_def split: option.splits)

theorem rejected_requests_witness:
  "status (fst (handleStripeWebhook rejecting clock0 example_request example_env
                  (world_of subscribed_db))) = 400
 \<and> db (snd (handleStripeWebhook rejecting clock0 example_request example_env
               (world_of subscribed_db))) = subscribed_db
 \<and> status (fst (handleStripeWebhook rejecting clock0
                  (example_request\<lparr>req_stripe_signature := None\<rparr>) example_env
                  (world_of subscribed_db))) = 400"
proof -
  have "\<exists>signature e. req_stripe_signature example_request = Some signature
          \<and> webhooks_constructEvent (rejecting (STRIPE_SECRET_KEY example_env))
               (req_text example_request) signature (STRIPE_WEBHOOK_SECRET example_env) = Inl e"
    by (simp add: example_request_def rejecting_def)
  then have first:
    "req_stripe_signature example_request = None \<or> req_stripe_signature example_request = Some []
       \<or> (\<exists>signature e. req_stripe_signature example_request = Some signature
             \<and> webhooks_constructEvent (rejecting (STRIPE_SECRET_KEY example_env))
                  (req_text example_request) signature (STRIPE_WEBHOOK_SECRET example_env) = Inl e)"
    by blast
  have second:
    "req_stripe_signature (example_request\<lparr>req_stripe_signature := None\<rparr>) = None
       \<or> req_stripe_signature (example_request\<lparr>req_stripe_signature := None\<rparr>) = Some []
       \<or> (\<exists>signature e. req_stripe_signature (example_request\<lparr>req_stripe_signature := None\<rparr>) =
                 Some signature
             \<and> webhooks_constructEvent (rejecting (STRIPE_SECRET_KEY example_env))
                  (req_text (example_request\<lparr>req_stripe_signature := None\<rparr>)) signature
                  (STRIPE_WEBHOOK_SECRET example_env) = Inl e)"
    by simp
  from rejected_requests_write_nothing
         [where Stripe = rejecting and env = example_env and request = example_request, OF first]
       rejected_requests_write_nothing
         [where Stripe = rejecting and env = example_env
            and request = "example_request\<lparr>req_stripe_signature := None\<rparr>", OF second]
  show ?thesis
    by (simp add: world_of_def)
qed

subsection \<open>The dispatcher\<close>

text \<open>
  C7. A verified event of type \<^verbatim>\<open>invoice.payment_failed\<close>,
  \<^verbatim>\<open>customer.subscription.trial_will_end\<close> or of any type outside the dispatcher's
  cases (every type but the four that write) leaves the database as it was: the request
  is answered with status 200 and the body \<^verbatim>\<open>{received: true}\<close>, and the handler adds its
  opening log line and one more, nothing else.
\<close>

theorem unhandled_events_leave_records:
  assumes "req_stripe_signature request = Some signature" and "signature \<noteq> []"
    and "webhooks_constructEvent (Stripe (STRIPE_SECRET_KEY env)) (req_text request) signature
           (STRIPE_WEBHOOK_SECRET env) = Inr event"
    and "event_type (event_data event) \<notin>
           {''customer.subscription.created'', ''customer.subscription.updated'',
            ''customer.subscription.deleted'', ''invoice.payment_succeeded''}"
  shows "status (fst (handleStripeWebhook Stripe clk request env w)) = 200
       \<and> body (fst (handleStripeWebhook Stripe clk request env w)) =
           JSON_stringify (JObject [(''received'', JBool True)])
       \<and> db (snd (handleStripeWebhook Stripe clk request env w)) = db w
       \<and> (\<exists>entry. logs (snd (handleStripeWebhook Stripe clk request env w)) =
             logs w @ [(LOG_INFO, ''Processing Stripe webhook event''), entry])"
proof (cases "event_data event")
  case (invoice_payment_failed inv)
  with assms(1-3) show ?thesis
    by (simp add: handleStripeWebhook_def verifyWebhookSignature_def dispatch_def logger_def
          received_def)
next
  case (customer_subscription_trial_will_end s)
  with assms(1-3) show ?thesis
    by (simp add: handleStripeWebhook_def verifyWebhookSignature_def dispatch_def logger_def
          received_def)
next
  case (other_event t oid)
  with assms(1-3) show ?thesis
    by (simp add: handleStripeWebhook_def verifyWebhookSignature_def dispatch_def logger_def
          received_def)
qed (use assms(4) in simp_all)

theorem unhandled_events_witness:
  "status (fst (handleStripeWebhook (accepting (invoice_payment_failed example_invoice)) clock0
                  example_request example_env (world_of subscribed_db))) = 200
 \<and> db (snd (handleStripeWebhook (accepting (invoice_payment_failed example_invoice)) clock0
               example_request example_env (world_of subscribed_db))) = subscribed_db
 \<and> status (fst (handleStripeWebhook (accepting (other_event ''charge.refunded'' ''ch_1'')) clock0
                  example_request example_env (world_of subscribed_db))) = 200
 \<and> db (snd (handleStripeWebhook (accepting (other_event ''charge.refunded'' ''ch_1'')) clock0
               example_request example_env (world_of subscribed_db))) = subscribed_db"
proof -
  have sig: "req_stripe_signature example_request = Some ''t=1700000000,v1=5257a8''"
    and nonempty: "''t=1700000000,v1=5257a8'' \<noteq> []"
    by (simp_all add: example_request_def)
  have verified: "webhooks_constructEvent (accepting e (STRIPE_SECRET_KEY example_env))
      (req_text example_request) ''t=1700000000,v1=5257a8'' (STRIPE_WEBHOOK_SECRET example_env) =
      Inr \<lparr>event_id = ''evt_1'', event_data = e\<rparr>" for e
    by (simp add: accepting_def)
  have failed: "event_type (event_data \<lparr>event_id = ''evt_1'',
                   event_data = invoice_payment_failed example_invoice\<rparr>) \<notin>
        {''customer.subscription.created'', ''customer.subscription.updated'',
         ''customer.subscription.deleted'', ''invoice.payment_succeeded''}"
    by simp
  have other: "event_type (event_data \<lparr>event_id = ''evt_1'',
                  event_data = other_event ''charge.refunded'' ''ch_1''\<rparr>) \<notin>
        {''customer.subscription.created'', ''customer.subscription.updated'',
         ''customer.subscription.deleted'', ''invoice.payment_succeeded''}"
    by simp
  from unhandled_events_leave_records
         [where Stripe = "accepting (invoice_payment_failed example_invoice)"
            and env = example_env and request = example_request,
          OF sig nonempty verified failed]
       unhandled_events_leave_records
         [where Stripe = "accepting (other_event ''charge.refunded'' ''ch_1'')"
            and env = example_env and request = example_request,
          OF sig nonempty verified other]
  show ?thesis
    by (simp add: world_of_def)
qed

text \<open>
  C2. When the signature verifies and processing the event throws, the error is logged
  and the request is answered with status 200 and the body
  \<^verbatim>\<open>{received: true, error: 'Processing failed'}\<close>. Nothing else happens: the database is
  as it was, and the log has the opening line and the error line.
\<close>

theorem processing_error_is_acknowledged:
  assumes "req_stripe_signature request = Some signature" and "signature \<noteq> []"
    and "webhooks_constructEvent (Stripe (STRIPE_SECRET_KEY env)) (req_text request) signature
           (STRIPE_WEBHOOK_SECRET env) = Inr event"
    and "dispatch clk event (logger LOG_INFO ''Processing Stripe webhook event'' w) = Inl e"
  shows "fst (handleStripeWebhook Stripe clk request env w) =
           \<lparr>status = 200,
            body = JSON_stringify
                     (JObject [(''received'', JBool True), (''error'', JString ''Processing failed'')]),
            headers = [(''Content-Type'', ''application/json'')]\<rparr>
       \<and> db (snd (handleStripeWebhook Stripe clk request env w)) = db w
       \<and> logs (snd (handleStripeWebhook Stripe clk request env w)) =
           logs w @ [(LOG_INFO, ''Processing Stripe webhook event''),
                     (LOG_ERROR, ''Error processing webhook event'')]"
  using assms
  by (simp add: handleStripeWebhook_def verifyWebhookSignature_def logger_def processing_failed_def)

theorem processing_error_witness:
  "status (fst (handleStripeWebhook
                  (accepting (customer_subscription_created (example_subscription\<lparr>sub_metadata := []\<rparr>)))
                  clock0 example_request example_env (world_of new_db))) = 200
 \<and> snd (handleStripeWebhook
          (accepting (customer_subscription_created (example_subscription\<lparr>sub_metadata := []\<rparr>)))
          clock0 example_request example_env (world_of new_db)) =
     \<lparr>db = new_db,
      logs = [(LOG_INFO, ''Processing Stripe webhook event''),
              (LOG_ERROR, ''Error processing webhook event'')]\<rparr>"
proof -
  let ?e = "customer_subscription_created (example_subscription\<lparr>sub_metadata := []\<rparr>)"
  have sig: "req_stripe_signature example_request = Some ''t=1700000000,v1=5257a8''"
    and nonempty: "''t=1700000000,v1=5257a8'' \<noteq> []"
    by (simp_all add: example_request_def)
  have verified: "webhooks_constructEvent (accepting ?e (STRIPE_SECRET_KEY example_env))
      (req_text example_request) ''t=1700000000,v1=5257a8'' (STRIPE_WEBHOOK_SECRET example_env) =
      Inr \<lparr>event_id = ''evt_1'', event_data = ?e\<rparr>"
    by (simp add: accepting_def)
  have thrown: "dispatch clock0 \<lparr>event_id = ''evt_1'', event_data = ?e\<rparr>
      (logger LOG_INFO ''Processing Stripe webhook event'' (world_of new_db)) =
      Inl (Error ''No userId in subscription metadata'')"
    by (simp add: dispatch_def handleSubscriptionCreated_def)
  from processing_error_is_acknowledged
         [where Stripe = "accepting ?e" and env = example_env and request = example_request,
          OF sig nonempty verified thrown]
  show ?thesis
    by (cases "handleStripeWebhook (accepting ?e) clock0 example_request example_env (world_of new_db)")
       (simp add: world_of_def)
qed

text \<open>
  C10. The two write paths treat a missing user id differently. When the subscription's
  metadata has no \<^verbatim>\<open>userId\<close> (or an empty one), \<open>handleSubscriptionCreated\<close> throws, so
  nothing is inserted and the dispatcher leaves its switch with the error. When neither
  the invoice's metadata nor the metadata of its \<^verbatim>\<open>subscription_details\<close> has one,
  \<open>handleInvoicePaymentSucceeded\<close> returns normally with the database as it was; all it
  does is write a warning to the console.
\<close>

theorem missing_userId_asymmetry:
  "(\<not> truthy (map_of (sub_metadata subscription) ''userId'') \<longrightarrow>
      handleSubscriptionCreated clk subscription d = Inl (Error ''No userId in subscription metadata'')
    \<and> dispatch clk \<lparr>event_id = i, event_data = customer_subscription_created subscription\<rparr> w =
        Inl (Error ''No userId in subscription metadata''))
 \<and> (\<not> truthy (metadata_userId (inv_metadata invoice))
    \<and> \<not> truthy (case inv_subscription_details invoice of
                   None \<Rightarrow> None
                 | Some details \<Rightarrow> metadata_userId (sd_metadata details)) \<longrightarrow>
      handleInvoicePaymentSucceeded clk invoice d =
        Inr (d, [(LOG_WARN, ''No userId in invoice metadata'')]))"
  by (auto simp: handleSubscriptionCreated_def dispatch_def handleInvoicePaymentSucceeded_def
        invoice_userId_def or_else_def truthy_def split: option.splits)

theorem missing_userId_witness:
  "handleSubscriptionCreated clock0 (example_subscription\<lparr>sub_metadata := []\<rparr>) new_db =
     Inl (Error ''No userId in subscription metadata'')
 \<and> handleInvoicePaymentSucceeded clock0 (example_invoice\<lparr>inv_subscription_details := None\<rparr>)
     subscribed_db = Inr (subscribed_db, [(LOG_WARN, ''No userId in invoice metadata'')])"
proof -
  have no_sub: "\<not> truthy (map_of (sub_metadata (example_subscription\<lparr>sub_metadata := []\<rparr>)) ''userId'')"
    by (simp add: truthy_def)
  have no_inv: "\<not> truthy (metadata_userId (inv_metadata (example_invoice\<lparr>inv_subscription_details := None\<rparr>)))
     \<and> \<not> truthy (case inv_subscription_details (example_invoice\<lparr>inv_subscription_details := None\<rparr>) of
                    None \<Rightarrow> None
                  | Some details \<Rightarrow> metadata_userId (sd_metadata details))"
    by (simp add: truthy_def metadata_userId_def example_invoice_def)
  from missing_userId_asymmetry
         [of "example_subscription\<lparr>sub_metadata := []\<rparr>" clock0 new_db "''evt_1''"
             "world_of new_db" "example_invoice\<lparr>inv_subscription_details := None\<rparr>"]
       missing_userId_asymmetry
         [of "example_subscription\<lparr>sub_metadata := []\<rparr>" clock0 subscribed_db "''evt_1''"
             "world_of new_db" "example_invoice\<lparr>inv_subscription_details := None\<rparr>"]
       no_sub no_inv
  show ?thesis
    by blast
qed

subsection \<open>Reading the subscription status\<close>

text \<open>
  C5. \<^verbatim>\<open>GET /api/subscription/status\<close> reads through: without a user in the route
  context the answer is the error response for status 401; with one, it is the success
  response in which \<open>hasActiveSubscription\<close> is true exactly when the table holds a row
  of that user with status \<^verbatim>\<open>'active'\<close>, \<open>subscription\<close> is the id, status,
  currentPeriodEnd and cancelAtPeriodEnd of such a row, and \<open>subscription\<close> is null when
  there is none.
\<close>

theorem getSubscriptionStatus_read_through:
  "getSubscriptionStatus None d = createErrorResponse ''Unauthorized'' 401
 \<and> (\<exists>data. getSubscriptionStatus (Some u) d = createSuccessResponse data
       \<and> res_hasActiveSubscription data =
           (\<exists>row \<in> set (subscriptions d). s_userId row = user_id u \<and> s_status row = ''active'')
       \<and> (case res_subscription data of
            None \<Rightarrow> \<not> (\<exists>row \<in> set (subscriptions d). s_userId row = user_id u \<and> s_status row = ''active'')
          | Some summary \<Rightarrow>
              (\<exists>row \<in> set (subscriptions d). s_userId row = user_id u \<and> s_status row = ''active''
                 \<and> summary = \<lparr>sum_id = s_id row, sum_status = s_status row,
                               sum_currentPeriodEnd = s_currentPeriodEnd row,
                               sum_cancelAtPeriodEnd = s_cancelAtPeriodEnd row\<rparr>)))"
proof -
  let ?P = "\<lambda>row. s_userId row = user_id u \<and> s_status row = ''active''"
  show ?thesis
  proof (cases "find ?P (subscriptions d)")
    case None
    then have no: "\<not> (\<exists>row \<in> set (subscriptions d). ?P row)"
      by (auto simp: find_None_iff)
    from None have "getSubscriptionStatus (Some u) d =
        createSuccessResponse \<lparr>res_hasActiveSubscription = False, res_subscription = None\<rparr>"
      by (simp add: getSubscriptionStatus_def getUserSubscription_def Let_def)
    with no show ?thesis
      by (simp add: getSubscriptionStatus_def)
  next
    case (Some row)
    then have yes: "row \<in> set (subscriptions d)" "?P row"
      by (auto simp: find_Some_iff)
    from Some have "getSubscriptionStatus (Some u) d =
        createSuccessResponse
          \<lparr>res_hasActiveSubscription = True,
           res_subscription = Some \<lparr>sum_id = s_id row, sum_status = s_status row,
                                     sum_currentPeriodEnd = s_currentPeriodEnd row,
                                     sum_cancelAtPeriodEnd = s_cancelAtPeriodEnd row\<rparr>\<rparr>"
      by (simp add: getSubscriptionStatus_def getUserSubscription_def Let_def)
    with yes show ?thesis
      by (auto simp: getSubscriptionStatus_def)
  qed
qed

theorem getSubscriptionStatus_witness:
  "getSubscriptionStatus None subscribed_db = createErrorResponse ''Unauthorized'' 401
 \<and> (\<exists>data. getSubscriptionStatus (Some \<lparr>user_id = ''user_1'', user_email = ''a@example.org''\<rparr>)
               subscribed_db = createSuccessResponse data
       \<and> res_hasActiveSubscription data
       \<and> res_subscription data =
           Some \<lparr>sum_id = ''sub_1'', sum_status = ''active'',
                 sum_currentPeriodEnd = Date 1702592000000, sum_cancelAtPeriodEnd = Some False\<rparr>)
 \<and> (\<exists>data. getSubscriptionStatus (Some \<lparr>user_id = ''user_2'', user_email = ''b@example.org''\<rparr>)
               subscribed_db = createSuccessResponse data
       \<and> \<not> res_hasActiveSubscription data \<and> res_subscription data = None)"
proof -
  let ?u1 = "\<lparr>user_id = ''user_1'', user_email = ''a@example.org''\<rparr>"
  let ?u2 = "\<lparr>user_id = ''user_2'', user_email = ''b@example.org''\<rparr>"
  from getSubscriptionStatus_read_through [of subscribed_db ?u1]
  obtain data1 where 1: "getSubscriptionStatus (Some ?u1) subscribed_db = createSuccessResponse data1"
    and "res_hasActiveSubscription data1 =
           (\<exists>row \<in> set (subscriptions subscribed_db). s_userId row = user_id ?u1 \<and> s_status row = ''active'')"
    and "case res_subscription data1 of
            None \<Rightarrow> \<not> (\<exists>row \<in> set (subscriptions subscribed_db). s_userId row = user_id ?u1 \<and> s_status row = ''active'')
          | Some summary \<Rightarrow>
              (\<exists>row \<in> set (subscriptions subscribed_db). s_userId row = user_id ?u1 \<and> s_status row = ''active''
                 \<and> summary = \<lparr>sum_id = s_id row, sum_status = s_status row,
                               sum_currentPeriodEnd = s_currentPeriodEnd row,
                               sum_cancelAtPeriodEnd = s_cancelAtPeriodEnd row\<rparr>)"
    by blast
  then have a: "res_hasActiveSubscription data1
       \<and> res_subscription data1 =
           Some \<lparr>sum_id = ''sub_1'', sum_status = ''active'',
                 sum_currentPeriodEnd = Date 1702592000000, sum_cancelAtPeriodEnd = Some False\<rparr>"
    by (simp add: subscribed_db_def example_row_def split: option.splits)
  from getSubscriptionStatus_read_through [of subscribed_db ?u2]
  obtain data2 where 2: "getSubscriptionStatus (Some ?u2) subscribed_db = createSuccessResponse data2"
    and "res_hasActiveSubscription data2 =
           (\<exists>row \<in> set (subscriptions subscribed_db). s_userId row = user_id ?u2 \<and> s_status row = ''active'')"
    and "case res_subscription data2 of
            None \<Rightarrow> \<not> (\<exists>row \<in> set (subscriptions subscribed_db). s_userId row = user_id ?u2 \<and> s_status row = ''active'')
          | Some summary \<Rightarrow>
              (\<exists>row \<in> set (subscriptions subscribed_db). s_userId row = user_id ?u2 \<and> s_status row = ''active''
                 \<and> summary = \<lparr>sum_id = s_id row, sum_status = s_status row,
                               sum_currentPeriodEnd = s_currentPeriodEnd row,
                               sum_cancelAtPeriodEnd = s_cancelAtPeriodEnd row\<rparr>)"
    by blast
  then have b: "\<not> res_hasActiveSubscription data2 \<and> res_subscription data2 = None"
    by (simp add: subscribed_db_def example_row_def split: option.splits)
  from getSubscriptionStatus_read_through [of subscribed_db ?u1] 1 a 2 b show ?thesis
    by blast
qed

subsection \<open>Cancelling and reactivating\<close>

lemma find_map_preserved:
  assumes "\<And>x. P (f x) = P x"
  shows "find P (map f xs) = map_option f (find P xs)"
  using assms by (induction xs) auto

lemma set_flag_frame:
  fixes b :: bool and t :: date
  assumes "d' = update_subscriptions k
                  (\<lambda>row. row\<lparr>s_cancelAtPeriodEnd := Some b, s_updatedAt := Some t\<rparr>) d"
  shows "users d' = users d \<and> payments d' = payments d
       \<and> length (subscriptions d') = length (subscriptions d)
       \<and> (\<forall>i < length (subscriptions d).
            s_status (subscriptions d' ! i) = s_status (subscriptions d ! i)
          \<and> (subscriptions d' ! i)
               \<lparr>s_cancelAtPeriodEnd := s_cancelAtPeriodEnd (subscriptions d ! i),
                s_updatedAt := s_updatedAt (subscriptions d ! i)\<rparr> = subscriptions d ! i
          \<and> (s_id (subscriptions d ! i) \<noteq> k \<longrightarrow> subscriptions d' ! i = subscriptions d ! i))
       \<and> (\<forall>userId. hasActiveSubscription userId d' = hasActiveSubscription userId d
            \<and> map_option s_id (getUserSubscription userId d') =
               map_option s_id (getUserSubscription userId d))"
  using assms
  by (simp add: update_subscriptions_def hasActiveSubscription_def
        getUserSubscription_def find_map_preserved option.map_comp comp_def if_distrib cong: if_cong)

text \<open>
  C8. \<open>cancelSubscription\<close> and \<open>reactivateSubscription\<close> change two fields,
  \<open>cancelAtPeriodEnd\<close> and \<open>updatedAt\<close>, of the rows whose id is the given one: every
  other field of every row, the status among them, and every other row and table stay
  as they were. So a user with an active subscription still has one after either call,
  and it is the same subscription.
\<close>

theorem cancel_and_reactivate_frame:
  assumes "cancelSubscription sdk clk k d = Inr d' \<or> reactivateSubscription sdk clk k d = Inr d'"
  shows "users d' = users d \<and> payments d' = payments d
       \<and> length (subscriptions d') = length (subscriptions d)
       \<and> (\<forall>i < length (subscriptions d).
            s_status (subscriptions d' ! i) = s_status (subscriptions d ! i)
          \<and> (subscriptions d' ! i)
               \<lparr>s_cancelAtPeriodEnd := s_cancelAtPeriodEnd (subscriptions d ! i),
                s_updatedAt := s_updatedAt (subscriptions d ! i)\<rparr> = subscriptions d ! i
          \<and> (s_id (subscriptions d ! i) \<noteq> k \<longrightarrow> subscriptions d' ! i = subscriptions d ! i))
       \<and> (\<forall>userId. hasActiveSubscription userId d' = hasActiveSubscription userId d
            \<and> map_option s_id (getUserSubscription userId d') =
               map_option s_id (getUserSubscription userId d))"
proof -
  from assms obtain b where
    "d' = update_subscriptions k
            (\<lambda>row. row\<lparr>s_cancelAtPeriodEnd := Some b, s_updatedAt := Some (clk 0)\<rparr>) d"
    by (auto simp: cancelSubscription_def reactivateSubscription_def split: sum.splits)
  then show ?thesis
    by (rule set_flag_frame)
qed

theorem cancel_and_reactivate_witness:
  "cancelSubscription (accepting (other_event ''ping'' ''obj_1'') ''sk_test_1'') clock1 ''sub_1''
     subscribed_db =
     Inr (subscribed_db\<lparr>subscriptions :=
            [example_row\<lparr>s_cancelAtPeriodEnd := Some True, s_updatedAt := Some (Date 1700000600000)\<rparr>]\<rparr>)
 \<and> hasActiveSubscription ''user_1''
      (subscribed_db\<lparr>subscriptions :=
         [example_row\<lparr>s_cancelAtPeriodEnd := Some True, s_updatedAt := Some (Date 1700000600000)\<rparr>]\<rparr>)"
proof -
  let ?sdk = "accepting (other_event ''ping'' ''obj_1'') ''sk_test_1''"
  let ?d' = "subscribed_db\<lparr>subscriptions :=
         [example_row\<lparr>s_cancelAtPeriodEnd := Some True, s_updatedAt := Some (Date 1700000600000)\<rparr>]\<rparr>"
  have run: "cancelSubscription ?sdk clock1 ''sub_1'' subscribed_db = Inr ?d'"
    by (simp add: cancelSubscription_def accepting_def update_subscriptions_def subscribed_db_def
          example_row_def clock1_def)
  then have "cancelSubscription ?sdk clock1 ''sub_1'' subscribed_db = Inr ?d'
      \<or> reactivateSubscription ?sdk clock1 ''sub_1'' subscribed_db = Inr ?d'"
    by (rule disjI1)
  from cancel_and_reactivate_frame [OF this]
  have "hasActiveSubscription ''user_1'' ?d' = hasActiveSubscription ''user_1'' subscribed_db"
    by blast
  moreover have "hasActiveSubscription ''user_1'' subscribed_db"
    by (simp add: hasActiveSubscription_def getUserSubscription_def subscribed_db_def example_row_def)
  ultimately show ?thesis
    using run by simp
qed

subsection \<open>The rows the webhook writes\<close>

text \<open>
  C3, as the code has it. When the invoice carries a user id and the insert succeeds,
  \<open>handleInvoicePaymentSucceeded\<close> appends one row to \<open>payments\<close>. Its id is the
  invoice's payment intent id when the invoice has one, and \<^verbatim>\<open>pi_\<close> followed by the
  invoice id when it has none; amount and currency are the invoice's \<open>amount_paid\<close> and
  \<open>currency\<close>; the status is \<^verbatim>\<open>'succeeded'\<close>; the subscription id, the customer id, the
  invoice id and the receipt URL are those of the invoice; \<open>paidAt\<close> is the invoice's
  \<open>paid_at\<close>, in milliseconds.
\<close>

theorem payment_row_mirrors_invoice:
  assumes "handleInvoicePaymentSucceeded clk invoice d = Inr (d', out)"
    and "truthy (invoice_userId invoice)"
  shows "\<exists>row. d' = d\<lparr>payments := payments d @ [row]\<rparr>
      \<and> p_id row =
          (case inv_payment_intent invoice of
             None \<Rightarrow> ''pi_'' @ inv_id invoice
           | Some intent \<Rightarrow> if intent = [] then ''pi_'' @ inv_id invoice else intent)
      \<and> p_amount row = inv_amount_paid invoice
      \<and> p_currency row = inv_currency invoice
      \<and> p_status row = ''succeeded''
      \<and> (inv_subscription invoice \<noteq> Some [] \<longrightarrow> p_subscriptionId row = inv_subscription invoice)
      \<and> Some (p_stripeCustomerId row) = inv_customer invoice
      \<and> p_stripeInvoiceId row = Some (inv_id invoice)
      \<and> p_receiptUrl row = inv_hosted_invoice_url invoice
      \<and> (\<forall>t. paid_at (inv_status_transitions invoice) = Some t \<longrightarrow>
            p_paidAt row = Some (Date (t * 1000)))
      \<and> Some (p_userId row) = invoice_userId invoice"
proof -
  from assms(2) obtain userId where user: "invoice_userId invoice = Some userId" "userId \<noteq> []"
    by (auto simp: truthy_def split: option.splits)
  with assms(1) obtain customer where customer: "inv_customer invoice = Some customer"
    by (cases "inv_customer invoice") (simp_all add: handleInvoicePaymentSucceeded_def)
  let ?row = "newPayment clk invoice userId customer"
  from assms(1) user customer have "insert_payment ?row d = Inr d'"
    by (simp add: handleInvoicePaymentSucceeded_def split: sum.splits)
  then have "d' = d\<lparr>payments := payments d @ [?row]\<rparr>"
    by (simp add: insert_payment_def split: if_splits)
  moreover have "p_id ?row =
          (case inv_payment_intent invoice of
             None \<Rightarrow> ''pi_'' @ inv_id invoice
           | Some intent \<Rightarrow> if intent = [] then ''pi_'' @ inv_id invoice else intent)"
    by (simp add: newPayment_def or_default_def split: option.splits)
  moreover have "inv_subscription invoice \<noteq> Some [] \<longrightarrow>
      p_subscriptionId ?row = inv_subscription invoice"
    by (simp add: newPayment_def or_else_def truthy_def split: option.splits)
  moreover have "\<forall>t. paid_at (inv_status_transitions invoice) = Some t \<longrightarrow>
      p_paidAt ?row = Some (Date (t * 1000))"
    by (simp add: newPayment_def)
  moreover have "p_amount ?row = inv_amount_paid invoice" "p_currency ?row = inv_currency invoice"
    "p_status ?row = ''succeeded''" "Some (p_stripeCustomerId ?row) = inv_customer invoice"
    "p_stripeInvoiceId ?row = Some (inv_id invoice)"
    "p_receiptUrl ?row = inv_hosted_invoice_url invoice"
    "Some (p_userId ?row) = invoice_userId invoice"
    by (simp_all add: newPayment_def user customer)
  ultimately show ?thesis
    by blast
qed

theorem payment_row_witness:
  "handleInvoicePaymentSucceeded clock0 example_invoice subscribed_db =
     Inr (subscribed_db\<lparr>payments := [example_payment]\<rparr>, [])
 \<and> truthy (invoice_userId example_invoice)
 \<and> (\<exists>row. subscribed_db\<lparr>payments := [example_payment]\<rparr> =
             subscribed_db\<lparr>payments := payments subscribed_db @ [row]\<rparr>
       \<and> p_id row = ''pi_1'' \<and> p_amount row = 4900 \<and> p_currency row = ''usd''
       \<and> p_subscriptionId row = Some ''sub_1''
       \<and> p_paidAt row = Some (Date 1700000300000))"
proof -
  have run: "handleInvoicePaymentSucceeded clock0 example_invoice subscribed_db =
      Inr (subscribed_db\<lparr>payments := [example_payment]\<rparr>, [])"
    by (simp add: handleInvoicePaymentSucceeded_def newPayment_def invoice_userId_def
          metadata_userId_def or_else_def or_default_def truthy_def insert_payment_def
          example_invoice_def example_payment_def subscribed_db_def example_row_def clock0_def)
  have user: "truthy (invoice_userId example_invoice)"
    by (simp add: invoice_userId_def metadata_userId_def or_else_def truthy_def example_invoice_def)
  from payment_row_mirrors_invoice [OF run user] obtain row where
    "subscribed_db\<lparr>payments := [example_payment]\<rparr> =
       subscribed_db\<lparr>payments := payments subscribed_db @ [row]\<rparr>"
    and "p_id row =
          (case inv_payment_intent example_invoice of
             None \<Rightarrow> ''pi_'' @ inv_id example_invoice
           | Some intent \<Rightarrow> if intent = [] then ''pi_'' @ inv_id example_invoice else intent)"
    and "p_amount row = inv_amount_paid example_invoice"
    and "p_currency row = inv_currency example_invoice"
    and "inv_subscription example_invoice \<noteq> Some [] \<longrightarrow>
           p_subscriptionId row = inv_subscription example_invoice"
    and "\<forall>t. paid_at (inv_status_transitions example_invoice) = Some t \<longrightarrow>
            p_paidAt row = Some (Date (t * 1000))"
    by blast
  then have "subscribed_db\<lparr>payments := [example_payment]\<rparr> =
             subscribed_db\<lparr>payments := payments subscribed_db @ [row]\<rparr>
       \<and> p_id row = ''pi_1'' \<and> p_amount row = 4900 \<and> p_currency row = ''usd''
       \<and> p_subscriptionId row = Some ''sub_1''
       \<and> p_paidAt row = Some (Date 1700000300000)"
    by (simp add: example_invoice_def)
  with run user show ?thesis
    by blast
qed

text \<open>
  The claim as written fails on an invoice without a payment intent: the row's id is
  then \<^verbatim>\<open>pi_in_1\<close>, made from the invoice id, and no payment intent id.
\<close>

theorem payment_id_counterexample:
  "inv_payment_intent (example_invoice\<lparr>inv_payment_intent := None\<rparr>) = None
 \<and> handleInvoicePaymentSucceeded clock0 (example_invoice\<lparr>inv_payment_intent := None\<rparr>)
     subscribed_db =
     Inr (subscribed_db\<lparr>payments := [example_payment\<lparr>p_id := ''pi_in_1''\<rparr>]\<rparr>, [])
 \<and> Some (p_id (example_payment\<lparr>p_id := ''pi_in_1''\<rparr>)) \<noteq>
     inv_payment_intent (example_invoice\<lparr>inv_payment_intent := None\<rparr>)"
  by (simp add: handleInvoicePaymentSucceeded_def newPayment_def invoice_userId_def
        metadata_userId_def or_else_def or_default_def truthy_def insert_payment_def
        example_invoice_def example_payment_def subscribed_db_def example_row_def clock0_def)

text \<open>
  C4, as the code has it. When \<open>handleSubscriptionCreated\<close> succeeds it has appended one
  row to \<open>subscriptions\<close>: id, status and cancelAtPeriodEnd are the event's; the two
  period bounds are the event's Unix seconds in milliseconds; a null trial bound stays
  null and a trial bound other than \<open>0\<close> is converted the same way; the user id is the
  \<^verbatim>\<open>userId\<close> of the metadata; the customer id is the subscription's own
  \<^verbatim>\<open>customer\<close>; the price and product ids are those of the first item.
  \<open>handleSubscriptionUpdated\<close> writes, in the rows with the event's id, the status,
  cancelAtPeriodEnd and the two period bounds of the event (and \<open>canceledAt\<close> and
  \<open>updatedAt\<close>); it leaves the user, customer, price and product ids and the trial
  bounds of those rows, and every other row, as they were.
\<close>

theorem subscription_row_mirrors_event:
  fixes d' :: database and subscription :: subscription
  defines "row \<equiv> last (subscriptions d')" and "item \<equiv> hd (sub_items subscription)"
  shows
  "(handleSubscriptionCreated clk subscription d = Inr d' \<longrightarrow>
      d' = d\<lparr>subscriptions := subscriptions d @ [row]\<rparr>
    \<and> s_id row = sub_id subscription
    \<and> s_status row = sub_status subscription
    \<and> s_cancelAtPeriodEnd row = Some (sub_cancel_at_period_end subscription)
    \<and> s_currentPeriodStart row = Date (sub_current_period_start subscription * 1000)
    \<and> s_currentPeriodEnd row = Date (sub_current_period_end subscription * 1000)
    \<and> (sub_trial_start subscription = None \<longrightarrow> s_trialStart row = None)
    \<and> (\<forall>t. sub_trial_start subscription = Some t \<and> t \<noteq> 0 \<longrightarrow>
          s_trialStart row = Some (Date (t * 1000)))
    \<and> (sub_trial_end subscription = None \<longrightarrow> s_trialEnd row = None)
    \<and> (\<forall>t. sub_trial_end subscription = Some t \<and> t \<noteq> 0 \<longrightarrow>
          s_trialEnd row = Some (Date (t * 1000)))
    \<and> map_of (sub_metadata subscription) ''userId'' = Some (s_userId row)
    \<and> s_stripeCustomerId row = sub_customer subscription
    \<and> sub_items subscription \<noteq> []
    \<and> s_stripePriceId row = price_id (item_price item)
    \<and> s_stripeProductId row = price_product (item_price item))
 \<and> (handleSubscriptionUpdated clk subscription d = Inr d' \<longrightarrow>
      users d' = users d \<and> payments d' = payments d
      \<and> length (subscriptions d') = length (subscriptions d)
      \<and> (\<forall>i < length (subscriptions d).
           if s_id (subscriptions d ! i) = sub_id subscription
           then s_status (subscriptions d' ! i) = sub_status subscription
              \<and> s_cancelAtPeriodEnd (subscriptions d' ! i) =
                  Some (sub_cancel_at_period_end subscription)
              \<and> s_currentPeriodStart (subscriptions d' ! i) =
                  Date (sub_current_period_start subscription * 1000)
              \<and> s_currentPeriodEnd (subscriptions d' ! i) =
                  Date (sub_current_period_end subscription * 1000)
              \<and> (subscriptions d' ! i)
                   \<lparr>s_status := s_status (subscriptions d ! i),
                    s_cancelAtPeriodEnd := s_cancelAtPeriodEnd (subscriptions d ! i),
                    s_currentPeriodStart := s_currentPeriodStart (subscriptions d ! i),
                    s_currentPeriodEnd := s_currentPeriodEnd (subscriptions d ! i),
                    s_canceledAt := s_canceledAt (subscriptions d ! i),
                    s_updatedAt := s_updatedAt (subscriptions d ! i)\<rparr> = subscriptions d ! i
           else subscriptions d' ! i = subscriptions d ! i))"
    (is "(?created \<longrightarrow> ?mirrors) \<and> (?updated \<longrightarrow> ?written)")
proof (rule conjI; rule impI)
  assume run: ?created
  then obtain userId where user: "map_of (sub_metadata subscription) ''userId'' = Some userId"
    by (cases "map_of (sub_metadata subscription) ''userId''")
       (simp_all add: handleSubscriptionCreated_def)
  with run obtain first rest where items: "sub_items subscription = first # rest"
    by (cases "sub_items subscription") (simp_all add: handleSubscriptionCreated_def split: if_splits)
  from run user items have "insert_subscription (newSub clk subscription userId first) d = Inr d'"
    by (simp add: handleSubscriptionCreated_def split: if_splits)
  then have d': "d' = d\<lparr>subscriptions := subscriptions d @ [newSub clk subscription userId first]\<rparr>"
    by (simp add: insert_subscription_def split: if_splits)
  then have row: "row = newSub clk subscription userId first"
    by (simp add: row_def)
  have item: "item = first"
    by (simp add: item_def items)
  from d' show ?mirrors
    unfolding row item by (simp add: newSub_def date_or_null_def user items)
next
  assume ?updated
  then have d': "d' = update_subscriptions (sub_id subscription)
            (\<lambda>row. row\<lparr>s_status := sub_status subscription,
                        s_cancelAtPeriodEnd := Some (sub_cancel_at_period_end subscription),
                        s_currentPeriodStart := Date (sub_current_period_start subscription * 1000),
                        s_currentPeriodEnd := Date (sub_current_period_end subscription * 1000),
                        s_canceledAt := date_or_null (sub_canceled_at subscription),
                        s_updatedAt := Some (clk 0)\<rparr>) d"
    by (simp add: handleSubscriptionUpdated_def)
  show ?written
    by (simp add: d' update_subscriptions_def)
qed

theorem subscription_row_witness:
  "handleSubscriptionCreated clock0 example_subscription new_db = Inr subscribed_db
 \<and> subscribed_db = new_db\<lparr>subscriptions := subscriptions new_db @ [example_row]\<rparr>
 \<and> s_id example_row = ''sub_1'' \<and> s_status example_row = ''active''
 \<and> s_currentPeriodEnd example_row = Date 1702592000000
 \<and> s_trialEnd example_row = None
 \<and> s_stripeCustomerId example_row = ''cus_1''
 \<and> s_stripePriceId example_row = ''price_1''
 \<and> handleSubscriptionUpdated clock1 (example_subscription\<lparr>sub_status := ''past_due''\<rparr>)
      subscribed_db =
     Inr (subscribed_db\<lparr>subscriptions :=
            [example_row\<lparr>s_status := ''past_due'', s_updatedAt := Some (Date 1700000600000)\<rparr>]\<rparr>)
 \<and> payments (subscribed_db\<lparr>subscriptions :=
       [example_row\<lparr>s_status := ''past_due'', s_updatedAt := Some (Date 1700000600000)\<rparr>]\<rparr>) =
     payments subscribed_db"
proof -
  let ?d2 = "subscribed_db\<lparr>subscriptions :=
            [example_row\<lparr>s_status := ''past_due'', s_updatedAt := Some (Date 1700000600000)\<rparr>]\<rparr>"
  have created: "handleSubscriptionCreated clock0 example_subscription new_db = Inr subscribed_db"
    by (simp add: handleSubscriptionCreated_def newSub_def insert_subscription_def date_or_null_def
          example_subscription_def example_row_def new_db_def subscribed_db_def clock0_def)
  have updated: "handleSubscriptionUpdated clock1 (example_subscription\<lparr>sub_status := ''past_due''\<rparr>)
      subscribed_db = Inr ?d2"
    by (simp add: handleSubscriptionUpdated_def update_subscriptions_def date_or_null_def
          example_subscription_def example_row_def subscribed_db_def clock1_def)
  have last_row: "last (subscriptions subscribed_db) = example_row"
    by (simp add: subscribed_db_def)
  have example: "sub_id example_subscription = ''sub_1''" "sub_status example_subscription = ''active''"
    "sub_current_period_end example_subscription = 1702592000"
    "sub_trial_end example_subscription = None" "sub_customer example_subscription = ''cus_1''"
    "price_id (item_price (hd (sub_items example_subscription))) = ''price_1''"
    by (simp_all add: example_subscription_def)
  from subscription_row_mirrors_event [of clock0 example_subscription new_db subscribed_db,
         THEN conjunct1, THEN mp, OF created]
  have 1: "subscribed_db = new_db\<lparr>subscriptions := subscriptions new_db @ [example_row]\<rparr>
     \<and> s_id example_row = ''sub_1'' \<and> s_status example_row = ''active''
     \<and> s_currentPeriodEnd example_row = Date 1702592000000
     \<and> s_trialEnd example_row = None
     \<and> s_stripeCustomerId example_row = ''cus_1''
     \<and> s_stripePriceId example_row = ''price_1''"
    unfolding last_row example by simp
  from subscription_row_mirrors_event
         [of clock1 "example_subscription\<lparr>sub_status := ''past_due''\<rparr>" subscribed_db ?d2,
          THEN conjunct2, THEN mp, OF updated]
  have 2: "payments ?d2 = payments subscribed_db"
    by (rule conjunct2 [THEN conjunct1])
  from created 1 updated 2 show ?thesis
    by simp
qed

text \<open>
  The claim as written fails in three places. Two subscriptions with the same first item
  and different customers give rows with different customer ids, so the customer id
  does not come from the first item. An update event with another price, another product
  and a trial end leaves the row's price, product and trial end as they were. A trial
  start of \<open>0\<close> is stored as null.
\<close>

theorem subscription_row_counterexample:
  "sub_items (example_subscription\<lparr>sub_customer := ''cus_2''\<rparr>) = sub_items example_subscription
 \<and> handleSubscriptionCreated clock0 example_subscription new_db =
     Inr (new_db\<lparr>subscriptions := [example_row]\<rparr>)
 \<and> handleSubscriptionCreated clock0 (example_subscription\<lparr>sub_customer := ''cus_2''\<rparr>) new_db =
     Inr (new_db\<lparr>subscriptions := [example_row\<lparr>s_stripeCustomerId := ''cus_2''\<rparr>]\<rparr>)
 \<and> handleSubscriptionUpdated clock1
      (example_subscription
         \<lparr>sub_items := [\<lparr>item_price = \<lparr>price_id = ''price_2'', price_product = ''prod_2''\<rparr>\<rparr>],
          sub_trial_end := Some 1700086400\<rparr>)
      subscribed_db =
     Inr (subscribed_db\<lparr>subscriptions := [example_row\<lparr>s_updatedAt := Some (Date 1700000600000)\<rparr>]\<rparr>)
 \<and> s_stripePriceId (example_row\<lparr>s_updatedAt := Some (Date 1700000600000)\<rparr>) = ''price_1''
 \<and> s_trialEnd (example_row\<lparr>s_updatedAt := Some (Date 1700000600000)\<rparr>) = None
 \<and> handleSubscriptionCreated clock0 (example_subscription\<lparr>sub_trial_start := Some 0\<rparr>) new_db =
     Inr (new_db\<lparr>subscriptions := [example_row]\<rparr>)
 \<and> s_trialStart example_row = None"
  by (simp add: handleSubscriptionCreated_def newSub_def insert_subscription_def date_or_null_def
        handleSubscriptionUpdated_def update_subscriptions_def
        example_subscription_def example_row_def new_db_def subscribed_db_def clock0_def clock1_def)

subsection \<open>Delivering an event twice\<close>

lemma created_fails_again:
  assumes "handleSubscriptionCreated clk subscription d = Inl e"
  shows "handleSubscriptionCreated clk' subscription d = Inl e"
  using assms
  by (auto simp: handleSubscriptionCreated_def insert_subscription_def newSub_def
        split: option.splits list.splits if_splits)

lemma created_rejected_after_insert:
  assumes "handleSubscriptionCreated clk subscription d = Inr d'"
  shows "handleSubscriptionCreated clk' subscription d' =
           Inl (D1Error ''UNIQUE constraint failed: subscriptions.id'')"
  using assms
  by (auto simp: handleSubscriptionCreated_def insert_subscription_def newSub_def
        split: option.splits list.splits if_splits)

lemma insert_payment_fails_again:
  assumes "insert_payment row d = Inl e"
    and "p_id row' = p_id row" and "p_userId row' = p_userId row"
    and "p_subscriptionId row' = p_subscriptionId row"
  shows "insert_payment row' d = Inl e"
  using assms by (simp add: insert_payment_def split: if_splits)

lemma insert_payment_rejected_after_insert:
  assumes "insert_payment row d = Inr d'" and "p_id row' = p_id row"
  shows "insert_payment row' d' = Inl (D1Error ''UNIQUE constraint failed: payments.id'')"
  using assms by (auto simp: insert_payment_def split: if_splits)

lemma payment_fails_again:
  assumes "handleInvoicePaymentSucceeded clk invoice d = Inl e"
  shows "handleInvoicePaymentSucceeded clk' invoice d = Inl e"
proof (cases "invoice_userId invoice")
  case None
  with assms show ?thesis
    by (simp add: handleInvoicePaymentSucceeded_def)
next
  case (Some userId)
  show ?thesis
  proof (cases "inv_customer invoice")
    case None
    with assms Some show ?thesis
      by (simp add: handleInvoicePaymentSucceeded_def split: if_splits)
  next
    case (Some customer)
    with assms \<open>invoice_userId invoice = Some userId\<close>
    have "userId \<noteq> []" and "insert_payment (newPayment clk invoice userId customer) d = Inl e"
      by (simp_all add: handleInvoicePaymentSucceeded_def split: if_splits sum.splits)
    then have "insert_payment (newPayment clk' invoice userId customer) d = Inl e"
      by (auto intro: insert_payment_fails_again simp: newPayment_def)
    with Some \<open>invoice_userId invoice = Some userId\<close> \<open>userId \<noteq> []\<close> show ?thesis
      by (simp add: handleInvoicePaymentSucceeded_def)
  qed
qed

lemma payment_inserted_then_rejected:
  assumes "handleInvoicePaymentSucceeded clk invoice d = Inr (d', out)"
    and "truthy (invoice_userId invoice)"
  shows "handleInvoicePaymentSucceeded clk' invoice d' =
           Inl (D1Error ''UNIQUE constraint failed: payments.id'')"
proof -
  from assms(2) obtain userId where user: "invoice_userId invoice = Some userId" "userId \<noteq> []"
    by (auto simp: truthy_def split: option.splits)
  with assms(1) obtain customer where customer: "inv_customer invoice = Some customer"
    by (cases "inv_customer invoice") (simp_all add: handleInvoicePaymentSucceeded_def)
  from assms(1) user customer
  have "insert_payment (newPayment clk invoice userId customer) d = Inr d'"
    by (simp add: handleInvoicePaymentSucceeded_def split: sum.splits)
  then have "insert_payment (newPayment clk' invoice userId customer) d' =
      Inl (D1Error ''UNIQUE constraint failed: payments.id'')"
    by (rule insert_payment_rejected_after_insert) (simp add: newPayment_def)
  with user customer show ?thesis
    by (simp add: handleInvoicePaymentSucceeded_def)
qed

lemma payment_rejected_after_insert:
  assumes "handleInvoicePaymentSucceeded clk invoice d = Inr (d', out)"
  shows "(d' = d \<and> handleInvoicePaymentSucceeded clk' invoice d = Inr (d, out))
       \<or> handleInvoicePaymentSucceeded clk' invoice d' =
           Inl (D1Error ''UNIQUE constraint failed: payments.id'')"
proof (cases "truthy (invoice_userId invoice)")
  case False
  with assms show ?thesis
    by (auto simp: handleInvoicePaymentSucceeded_def truthy_def split: option.splits if_splits)
next
  case True
  with assms show ?thesis
    by (simp add: payment_inserted_then_rejected)
qed

lemma payment_written_has_user:
  assumes "handleInvoicePaymentSucceeded clk invoice d = Inr (d', [])"
  shows "truthy (invoice_userId invoice)"
  using assms
  by (auto simp: handleInvoicePaymentSucceeded_def truthy_def split: option.splits if_splits)

lemma update_subscriptions_twice:
  assumes "\<And>row. s_id (f row) = s_id row" and "\<And>row. g (f row) = g row"
  shows "update_subscriptions k g (update_subscriptions k f d) = update_subscriptions k g d"
  by (simp add: update_subscriptions_def assms comp_def if_distrib cong: if_cong)

lemma webhook_db:
  assumes "req_stripe_signature request = Some signature" and "signature \<noteq> []"
    and "webhooks_constructEvent (Stripe (STRIPE_SECRET_KEY env)) (req_text request) signature
           (STRIPE_WEBHOOK_SECRET env) = Inr event"
  shows "db (snd (handleStripeWebhook Stripe clk request env w)) =
           (case event_data event of
              customer_subscription_created subscription \<Rightarrow>
                (case handleSubscriptionCreated clk subscription (db w) of Inl e \<Rightarrow> db w | Inr d \<Rightarrow> d)
            | customer_subscription_updated subscription \<Rightarrow>
                (case handleSubscriptionUpdated clk subscription (db w) of Inl e \<Rightarrow> db w | Inr d \<Rightarrow> d)
            | customer_subscription_deleted subscription \<Rightarrow>
                (case handleSubscriptionDeleted clk subscription (db w) of Inl e \<Rightarrow> db w | Inr d \<Rightarrow> d)
            | invoice_payment_succeeded invoice \<Rightarrow>
                (case handleInvoicePaymentSucceeded clk invoice (db w) of Inl e \<Rightarrow> db w | Inr (d, out) \<Rightarrow> d)
            | _ \<Rightarrow> db w)"
  using assms
  by (simp add: handleStripeWebhook_def verifyWebhookSignature_def dispatch_def logger_def Let_def
        split: event_data.splits sum.splits prod.splits)

lemma webhook_response:
  assumes "req_stripe_signature request = Some signature" and "signature \<noteq> []"
    and "webhooks_constructEvent (Stripe (STRIPE_SECRET_KEY env)) (req_text request) signature
           (STRIPE_WEBHOOK_SECRET env) = Inr event"
  shows "fst (handleStripeWebhook Stripe clk request env w) =
           (case dispatch clk event (logger LOG_INFO ''Processing Stripe webhook event'' w) of
              Inl e \<Rightarrow> processing_failed
            | Inr w' \<Rightarrow> received)"
  using assms
  by (simp add: handleStripeWebhook_def verifyWebhookSignature_def Let_def split: sum.splits)

text \<open>
  C1, as the code has it. Let a verified event be delivered twice, the second time when
  the clock reads something else. The users and the payments are as after the first
  delivery, and so are the subscriptions but for \<open>updatedAt\<close> and \<open>canceledAt\<close>. For an
  updated or deleted subscription the database is what one delivery at the second time
  leaves; for every other event it is what the first delivery left. The writes for a
  created subscription and a paid invoice are inserts: the second one is refused by the
  primary key and the request is answered through the error path.
\<close>

theorem webhook_redelivery:
  fixes Stripe clk1 clk2 request env
  defines "once \<equiv> (\<lambda>clk w. db (snd (handleStripeWebhook Stripe clk request env w)))"
  defines "twice \<equiv> (\<lambda>w. db (snd (handleStripeWebhook Stripe clk2 request env
                                  (snd (handleStripeWebhook Stripe clk1 request env w)))))"
  assumes "req_stripe_signature request = Some signature" and "signature \<noteq> []"
    and "webhooks_constructEvent (Stripe (STRIPE_SECRET_KEY env)) (req_text request) signature
           (STRIPE_WEBHOOK_SECRET env) = Inr event"
  shows "twice w =
           (if event_type (event_data event) \<in>
                 {''customer.subscription.updated'', ''customer.subscription.deleted''}
            then once clk2 w else once clk1 w)
       \<and> users (twice w) = users (once clk1 w)
       \<and> payments (twice w) = payments (once clk1 w)
       \<and> map (\<lambda>row. row\<lparr>s_updatedAt := None, s_canceledAt := None\<rparr>) (subscriptions (twice w)) =
           map (\<lambda>row. row\<lparr>s_updatedAt := None, s_canceledAt := None\<rparr>) (subscriptions (once clk1 w))
       \<and> (\<forall>subscription d'.
             event_data event = customer_subscription_created subscription
             \<and> handleSubscriptionCreated clk1 subscription (db w) = Inr d' \<longrightarrow>
             fst (handleStripeWebhook Stripe clk2 request env
                    (snd (handleStripeWebhook Stripe clk1 request env w))) = processing_failed)
       \<and> (\<forall>invoice d'.
             event_data event = invoice_payment_succeeded invoice
             \<and> handleInvoicePaymentSucceeded clk1 invoice (db w) = Inr (d', []) \<longrightarrow>
             fst (handleStripeWebhook Stripe clk2 request env
                    (snd (handleStripeWebhook Stripe clk1 request env w))) = processing_failed)"
    (is "?records \<and> ?users \<and> ?payments \<and> ?subscriptions \<and> ?created \<and> ?paid")
proof -
  note dbs = webhook_db [where Stripe = Stripe and env = env and request = request, OF assms(3-5)]
  note answer = webhook_response [where Stripe = Stripe and env = env and request = request,
    OF assms(3-5)]
  have created: ?created
  proof (intro allI impI, elim conjE)
    fix subscription d'
    assume e: "event_data event = customer_subscription_created subscription"
      and first: "handleSubscriptionCreated clk1 subscription (db w) = Inr d'"
    from e first have "db (snd (handleStripeWebhook Stripe clk1 request env w)) = d'"
      by (simp add: dbs)
    with created_rejected_after_insert [OF first, of clk2] e
    show "fst (handleStripeWebhook Stripe clk2 request env
                 (snd (handleStripeWebhook Stripe clk1 request env w))) = processing_failed"
      by (simp add: answer dispatch_def logger_def)
  qed
  have paid: ?paid
  proof (intro allI impI, elim conjE)
    fix invoice d'
    assume e: "event_data event = invoice_payment_succeeded invoice"
      and first: "handleInvoicePaymentSucceeded clk1 invoice (db w) = Inr (d', [])"
    from e first have "db (snd (handleStripeWebhook Stripe clk1 request env w)) = d'"
      by (simp add: dbs)
    with payment_inserted_then_rejected [OF first payment_written_has_user [OF first], of clk2] e
    show "fst (handleStripeWebhook Stripe clk2 request env
                 (snd (handleStripeWebhook Stripe clk1 request env w))) = processing_failed"
      by (simp add: answer dispatch_def logger_def)
  qed
  have "?records \<and> ?users \<and> ?payments \<and> ?subscriptions"
  proof (cases "event_data event")
    case (customer_subscription_created s)
    show ?thesis
    proof (cases "handleSubscriptionCreated clk1 s (db w)")
      case (Inl e)
      from created_fails_again [OF this, of clk2] Inl customer_subscription_created show ?thesis
        by (simp add: once_def twice_def dbs)
    next
      case (Inr d')
      from created_rejected_after_insert [OF this, of clk2] Inr customer_subscription_created
      show ?thesis
        by (simp add: once_def twice_def dbs)
    qed
  next
    case (customer_subscription_updated s)
    then show ?thesis
      by (simp add: once_def twice_def dbs handleSubscriptionUpdated_def update_subscriptions_twice)
         (simp add: update_subscriptions_def)
  next
    case (customer_subscription_deleted s)
    then show ?thesis
      by (simp add: once_def twice_def dbs handleSubscriptionDeleted_def update_subscriptions_twice)
         (simp add: update_subscriptions_def)
  next
    case (invoice_payment_succeeded inv)
    show ?thesis
    proof (cases "handleInvoicePaymentSucceeded clk1 inv (db w)")
      case (Inl e)
      from payment_fails_again [OF this, of clk2] Inl invoice_payment_succeeded show ?thesis
        by (simp add: once_def twice_def dbs)
    next
      case (Inr r)
      obtain d' out where r: "r = (d', out)"
        by (cases r)
      from payment_rejected_after_insert [OF Inr [unfolded r], of clk2] Inr r invoice_payment_succeeded
      show ?thesis
        by (auto simp: once_def twice_def dbs)
    qed
  qed (simp_all add: once_def twice_def dbs)
  with created paid show ?thesis
    by (elim conjE) (intro conjI; assumption)
qed

theorem webhook_redelivery_witness:
  "db (snd (handleStripeWebhook (accepting (customer_subscription_created example_subscription))
              clock1 example_request example_env
              (snd (handleStripeWebhook (accepting (customer_subscription_created example_subscription))
                      clock0 example_request example_env (world_of new_db))))) = subscribed_db
 \<and> db (snd (handleStripeWebhook (accepting (customer_subscription_created example_subscription))
              clock0 example_request example_env (world_of new_db))) = subscribed_db"
proof -
  let ?e = "customer_subscription_created example_subscription"
  have sig: "req_stripe_signature example_request = Some ''t=1700000000,v1=5257a8''"
    and nonempty: "''t=1700000000,v1=5257a8'' \<noteq> []"
    by (simp_all add: example_request_def)
  have verified: "webhooks_constructEvent (accepting ?e (STRIPE_SECRET_KEY example_env))
      (req_text example_request) ''t=1700000000,v1=5257a8'' (STRIPE_WEBHOOK_SECRET example_env) =
      Inr \<lparr>event_id = ''evt_1'', event_data = ?e\<rparr>"
    by (simp add: accepting_def)
  have first: "db (snd (handleStripeWebhook (accepting ?e) clock0 example_request example_env
                          (world_of new_db))) = subscribed_db"
    by (simp add: handleStripeWebhook_def verifyWebhookSignature_def dispatch_def logger_def
          accepting_def example_request_def world_of_def
          handleSubscriptionCreated_def newSub_def insert_subscription_def date_or_null_def
          example_subscription_def example_row_def new_db_def subscribed_db_def clock0_def)
  from webhook_redelivery
         [where Stripe = "accepting ?e" and env = example_env and request = example_request,
          OF sig nonempty verified, of clock1 clock0 "world_of new_db", THEN conjunct1]
  have "db (snd (handleStripeWebhook (accepting ?e) clock1 example_request example_env
                   (snd (handleStripeWebhook (accepting ?e) clock0 example_request example_env
                           (world_of new_db))))) =
        db (snd (handleStripeWebhook (accepting ?e) clock0 example_request example_env
                   (world_of new_db)))"
    by simp
  with first show ?thesis
    by simp
qed

text \<open>
  The claim as written fails on an updated subscription: the second delivery moves
  \<open>updatedAt\<close>, so the database after two deliveries is not the database after one.
  And the second delivery of a created subscription is no upsert: its insert is refused,
  and the answer is the one of the error path.
\<close>

theorem webhook_redelivery_counterexample:
  "db (snd (handleStripeWebhook (accepting (customer_subscription_updated example_subscription))
              clock1 example_request example_env
              (snd (handleStripeWebhook (accepting (customer_subscription_updated example_subscription))
                      clock0 example_request example_env (world_of subscribed_db))))) \<noteq>
   db (snd (handleStripeWebhook (accepting (customer_subscription_updated example_subscription))
              clock0 example_request example_env (world_of subscribed_db)))
 \<and> body (fst (handleStripeWebhook (accepting (customer_subscription_created example_subscription))
                 clock1 example_request example_env
                 (snd (handleStripeWebhook (accepting (customer_subscription_created example_subscription))
                         clock0 example_request example_env (world_of new_db))))) =
     JSON_stringify (JObject [(''received'', JBool True), (''error'', JString ''Processing failed'')])"
  by (simp add: handleStripeWebhook_def verifyWebhookSignature_def dispatch_def logger_def
        accepting_def example_request_def world_of_def processing_failed_def
        handleSubscriptionCreated_def newSub_def insert_subscription_def date_or_null_def
        handleSubscriptionUpdated_def update_subscriptions_def
        example_subscription_def example_row_def new_db_def subscribed_db_def clock0_def clock1_def)

end
